theory Spec2Isabelle
  imports Main "HOL-Library.Word"
begin

unbundle bit_operations_syntax

section \<open>JavaScript numbers\<close>

text \<open>
  A JavaScript \<^verbatim>\<open>number\<close> is an IEEE-754 binary64 value. Prices and volumes are kept as the
  64-bit pattern of that value (sign bit 63, exponent bits 62..52, fraction bits 51..0), so
  that \<^verbatim>\<open>NaN\<close>, the infinities and the two zeros are the values the engine has. Timestamps
  are integer-valued numbers; they are kept as \<^typ>\<open>int\<close>, which is exact for the arithmetic the
  code does on them as long as they are safe integers (below \<open>2 ^ 53\<close> in magnitude).
\<close>

type_synonym byte = "8 word"
type_synonym float64 = "64 word"

definition f64_sign :: "float64 \<Rightarrow> bool" where
  "f64_sign x \<longleftrightarrow> 2 ^ 63 \<le> unat x"

definition f64_exponent :: "float64 \<Rightarrow> nat" where
  "f64_exponent x = unat x div 2 ^ 52 mod 2048"

definition f64_fraction :: "float64 \<Rightarrow> nat" where
  "f64_fraction x = unat x mod 2 ^ 52"

definition f64_magnitude :: "float64 \<Rightarrow> nat" where
  "f64_magnitude x = unat x mod 2 ^ 63"

definition isNaN :: "float64 \<Rightarrow> bool" where
  "isNaN x \<longleftrightarrow> f64_exponent x = 2047 \<and> f64_fraction x \<noteq> 0"

definition isInfinity :: "float64 \<Rightarrow> bool" where
  "isInfinity x \<longleftrightarrow> f64_exponent x = 2047 \<and> f64_fraction x = 0"

definition isZero :: "float64 \<Rightarrow> bool" where
  "isZero x \<longleftrightarrow> f64_magnitude x = 0"

definition NaN :: float64 where
  "NaN = 0x7FF8000000000000"

definition Infinity_mag :: nat where
  "Infinity_mag = 2047 * 2 ^ 52"

definition f64_pack :: "bool \<Rightarrow> nat \<Rightarrow> float64" where
  "f64_pack s m = (if s then of_nat (2 ^ 63 + m) else of_nat m)"

text \<open>
  A finite value is \<open>\<plusminus> f64_significand x * 2 ^ f64_scale x\<close>. The order of the non-NaN
  values is the order of \<open>f64_key\<close>: the magnitude bits, negated under the sign bit, so
  that both zeros have key 0.
\<close>

definition f64_significand :: "float64 \<Rightarrow> nat" where
  "f64_significand x = (if f64_exponent x = 0 then f64_fraction x else 2 ^ 52 + f64_fraction x)"

definition f64_scale :: "float64 \<Rightarrow> int" where
  "f64_scale x = int (max 1 (f64_exponent x)) - 1075"






text \<open>
  Rounding to nearest, ties to even: \<open>round_ratio n d\<close> is the magnitude of the binary64
  value nearest to the positive rational \<open>n / d\<close> (the magnitude of Infinity on overflow).
\<close>

fun bitlen :: "nat \<Rightarrow> nat" where
  "bitlen n = (if n = 0 then 0 else Suc (bitlen (n div 2)))"

declare bitlen.simps [simp del]

definition round_ratio :: "nat \<Rightarrow> nat \<Rightarrow> nat" where
  "round_ratio n d =
    (let k = int (bitlen n) - int (bitlen d);
         e = (if d * 2 ^ nat k \<le> n * 2 ^ nat (- k) then k else k - 1);
         u = max (e - 52) (- 1074);
         N = n * 2 ^ nat (- u);
         D = d * 2 ^ nat u;
         q = N div D;
         r = N mod D;
         q' = (if D < 2 * r \<or> (2 * r = D \<and> odd q) then q + 1 else q)
     in min (nat (u + 1074) * 2 ^ 52 + q') Infinity_mag)"


definition js_div :: "float64 \<Rightarrow> float64 \<Rightarrow> float64" where
  "js_div a b =
    (let s = (f64_sign a \<noteq> f64_sign b) in
     if isNaN a \<or> isNaN b then NaN
     else if isInfinity a then (if isInfinity b then NaN else f64_pack s Infinity_mag)
     else if isInfinity b then f64_pack s 0
     else if isZero b then (if isZero a then NaN else f64_pack s Infinity_mag)
     else if isZero a then f64_pack s 0
     else
       (let ea = f64_scale a; eb = f64_scale b
        in f64_pack s (round_ratio (f64_significand a * 2 ^ nat (ea - eb))
                                   (f64_significand b * 2 ^ nat (eb - ea)))))"

text \<open>
  \<^verbatim>\<open>Number(v)\<close> of a BigInt: the integer value of the nearest binary64. It is \<open>v\<close> itself
  for every safe integer.
\<close>

definition Number_of_BigInt :: "int \<Rightarrow> int" where
  "Number_of_BigInt v =
    (if \<bar>v\<bar> < 2 ^ 53 then v
     else (let m = f64_pack False (round_ratio (nat \<bar>v\<bar>) 1)
           in sgn v * (int (f64_significand m) * 2 ^ nat (f64_scale m))))"

section \<open>The data model (sdk/types)\<close>

record Candle =
  OpenPrice :: float64
  ClosePrice :: float64
  HighPrice :: float64
  LowPrice :: float64
  VolumeIn :: float64
  VolumeOut :: float64
  Timestamp :: int

record RealTimeTrade =
  TradeTime :: int
  USD :: float64
  Amount :: float64
  Price :: float64

section \<open>DataView over a byte buffer\<close>

text \<open>
  What the codec throws: the \<^verbatim>\<open>RangeError\<close> of a DataView access outside the buffer, and
  the two \<^verbatim>\<open>Error\<close>s of the size checks, with the expected and the actual size.
\<close>

datatype js_error =
    RangeError
  | InvalidDataSize nat nat
  | InvalidTradeSize nat nat

definition ebind :: "js_error + 'a \<Rightarrow> ('a \<Rightarrow> js_error + 'b) \<Rightarrow> js_error + 'b" where
  "ebind m f = (case m of Inl e \<Rightarrow> Inl e | Inr x \<Rightarrow> f x)"

fun le_nat :: "byte list \<Rightarrow> nat" where
  "le_nat [] = 0"
| "le_nat (b # bs) = unat b + 256 * le_nat bs"

fun le_bytes :: "nat \<Rightarrow> nat \<Rightarrow> byte list" where
  "le_bytes 0 n = []"
| "le_bytes (Suc k) n = of_nat (n mod 256) # le_bytes k (n div 256)"

definition getBytes :: "byte list \<Rightarrow> nat \<Rightarrow> nat \<Rightarrow> js_error + byte list" where
  "getBytes data offset k =
    (if offset + k \<le> length data then Inr (take k (drop offset data)) else Inl RangeError)"

definition setBytes :: "byte list \<Rightarrow> nat \<Rightarrow> byte list \<Rightarrow> js_error + byte list" where
  "setBytes buffer offset bs =
    (if offset + length bs \<le> length buffer
     then Inr (take offset buffer @ bs @ drop (offset + length bs) buffer)
     else Inl RangeError)"

text \<open>The little-endian accessors (second argument \<^verbatim>\<open>true\<close> in the source).\<close>

definition getUint32 :: "byte list \<Rightarrow> nat \<Rightarrow> js_error + nat" where
  "getUint32 data offset = ebind (getBytes data offset 4) (\<lambda>bs. Inr (le_nat bs))"

definition getBigInt64 :: "byte list \<Rightarrow> nat \<Rightarrow> js_error + int" where
  "getBigInt64 data offset =
    ebind (getBytes data offset 8)
      (\<lambda>bs. let n = le_nat bs in Inr (if n < 2 ^ 63 then int n else int n - 2 ^ 64))"

definition getFloat64 :: "byte list \<Rightarrow> nat \<Rightarrow> js_error + float64" where
  "getFloat64 data offset = ebind (getBytes data offset 8) (\<lambda>bs. Inr (of_nat (le_nat bs)))"

definition setUint32 :: "byte list \<Rightarrow> nat \<Rightarrow> nat \<Rightarrow> js_error + byte list" where
  "setUint32 buffer offset v = setBytes buffer offset (le_bytes 4 (v mod 2 ^ 32))"

definition setBigInt64 :: "byte list \<Rightarrow> nat \<Rightarrow> int \<Rightarrow> js_error + byte list" where
  "setBigInt64 buffer offset v = setBytes buffer offset (le_bytes 8 (nat (v mod 2 ^ 64)))"

definition setFloat64 :: "byte list \<Rightarrow> nat \<Rightarrow> float64 \<Rightarrow> js_error + byte list" where
  "setFloat64 buffer offset x = setBytes buffer offset (le_bytes 8 (unat x))"

section \<open>utils/binary-deserializer\<close>

text \<open>
  The body of the \<^verbatim>\<open>for\<close> loop of \<^verbatim>\<open>deserializeCandleData\<close>: seven reads of 8 bytes
  at consecutive offsets, then the candle is pushed. \<open>readCandles data offset n\<close> runs
  \<open>n\<close> iterations from \<open>offset\<close>; each iteration advances the offset by the 56 bytes it
  has read, although the size check counts 64 bytes for each candle.
\<close>

definition readCandle :: "byte list \<Rightarrow> nat \<Rightarrow> js_error + Candle" where
  "readCandle data offset =
    ebind (getBigInt64 data offset) (\<lambda>timestamp.
    ebind (getFloat64 data (offset + 8)) (\<lambda>openPrice.
    ebind (getFloat64 data (offset + 16)) (\<lambda>closePrice.
    ebind (getFloat64 data (offset + 24)) (\<lambda>highPrice.
    ebind (getFloat64 data (offset + 32)) (\<lambda>lowPrice.
    ebind (getFloat64 data (offset + 40)) (\<lambda>volumeUSD.
    ebind (getFloat64 data (offset + 48)) (\<lambda>volume.
      Inr \<lparr>OpenPrice = openPrice, ClosePrice = closePrice, HighPrice = highPrice,
           LowPrice = lowPrice, VolumeIn = volumeUSD, VolumeOut = volume,
           Timestamp = Number_of_BigInt timestamp\<rparr>)))))))"

fun readCandles :: "byte list \<Rightarrow> nat \<Rightarrow> nat \<Rightarrow> js_error + Candle list" where
  "readCandles data offset 0 = Inr []"
| "readCandles data offset (Suc n) =
    ebind (readCandle data offset) (\<lambda>c.
    ebind (readCandles data (offset + 56) n) (\<lambda>cs. Inr (c # cs)))"

definition deserializeCandleData :: "byte list \<Rightarrow> js_error + Candle list" where
  "deserializeCandleData data =
    ebind (getUint32 data 0) (\<lambda>count.
      let expectedSize = 4 + count * 64 in
      if length data \<noteq> expectedSize then Inl (InvalidDataSize expectedSize (length data))
      else readCandles data 4 count)"

definition deserializeRealTimeTradeData :: "byte list \<Rightarrow> js_error + RealTimeTrade" where
  "deserializeRealTimeTradeData data =
    (if length data \<noteq> 24 then Inl (InvalidTradeSize 24 (length data))
     else
       ebind (getBigInt64 data 0) (\<lambda>tradeTime.
       ebind (getFloat64 data 8) (\<lambda>usd.
       ebind (getFloat64 data 16) (\<lambda>amount.
         Inr \<lparr>TradeTime = Number_of_BigInt tradeTime, USD = usd, Amount = amount,
              Price = js_div usd amount\<rparr>))))"

text \<open>
  \<^verbatim>\<open>createMockBinaryData\<close>: a zero-filled buffer of \<open>4 + length * 64\<close> bytes, the count, then
  seven writes of 8 bytes for each candle. \<^verbatim>\<open>BigInt(candle.Timestamp)\<close> is exact on an
  integer-valued number, and \<^verbatim>\<open>setBigInt64\<close> keeps its low 64 bits.
\<close>

fun writeCandles :: "byte list \<Rightarrow> nat \<Rightarrow> Candle list \<Rightarrow> js_error + byte list" where
  "writeCandles buffer offset [] = Inr buffer"
| "writeCandles buffer offset (candle # candles) =
    ebind (setBigInt64 buffer offset (Timestamp candle)) (\<lambda>b1.
    ebind (setFloat64 b1 (offset + 8) (OpenPrice candle)) (\<lambda>b2.
    ebind (setFloat64 b2 (offset + 16) (ClosePrice candle)) (\<lambda>b3.
    ebind (setFloat64 b3 (offset + 24) (HighPrice candle)) (\<lambda>b4.
    ebind (setFloat64 b4 (offset + 32) (LowPrice candle)) (\<lambda>b5.
    ebind (setFloat64 b5 (offset + 40) (VolumeIn candle)) (\<lambda>b6.
    ebind (setFloat64 b6 (offset + 48) (VolumeOut candle)) (\<lambda>b7.
      writeCandles b7 (offset + 56) candles)))))))"

definition createMockBinaryData :: "Candle list \<Rightarrow> js_error + byte list" where
  "createMockBinaryData candles =
    (let buffer = replicate (4 + length candles * 64) 0 in
     ebind (setUint32 buffer 0 (length candles)) (\<lambda>b. writeCandles b 4 candles))"

text \<open>The bytes one field and one candle occupy on the wire, for the proofs below.\<close>

definition int64_bytes :: "int \<Rightarrow> byte list" where
  "int64_bytes v = le_bytes 8 (nat (v mod 2 ^ 64))"

definition float64_bytes :: "float64 \<Rightarrow> byte list" where
  "float64_bytes x = le_bytes 8 (unat x)"

definition candle_bytes :: "Candle \<Rightarrow> byte list" where
  "candle_bytes c =
    int64_bytes (Timestamp c) @ float64_bytes (OpenPrice c) @ float64_bytes (ClosePrice c)
    @ float64_bytes (HighPrice c) @ float64_bytes (LowPrice c)
    @ float64_bytes (VolumeIn c) @ float64_bytes (VolumeOut c)"

text \<open>
  An integer number that fits the signed 64-bit field: inside \<open>[- 2 ^ 63, 2 ^ 63)\<close> and a
  value \<^verbatim>\<open>Number\<close> gives back unchanged (every safe integer is one).
\<close>

definition int64_Number :: "int \<Rightarrow> bool" where
  "int64_Number v \<longleftrightarrow> - (2 ^ 63) \<le> v \<and> v < 2 ^ 63 \<and> Number_of_BigInt v = v"

section \<open>sdk/websocket.service\<close>

text \<open>
  The service's fields, the socket by its \<^verbatim>\<open>readyState\<close> (\<open>None\<close> for \<^verbatim>\<open>null\<close>), and what it
  does to the outside: every \<^verbatim>\<open>setTimeout\<close> it makes and every call of a registered
  callback, in order.
\<close>

datatype readyState = CONNECTING | OPEN | CLOSING | CLOSED

datatype timer = DeferredConnect nat | ConnectionTimeout nat | Reconnect nat

datatype json =
    JNull
  | JBool bool
  | JNumber int
  | JString string
  | JArray "json list"
  | JObject "(string \<times> json) list"

record WebSocketService =
  ws :: "readyState option"
  config_reconnectDelay :: "nat option"
  config_maxReconnectAttempts :: "nat option"
  reconnectAttempts :: nat
  maxReconnectAttempts :: nat
  reconnectDelay :: nat
  isConnecting :: bool
  connectionTimeout :: bool
  subscribeId :: "json option"
  isSubscribed :: bool
  scheduled :: "timer list"
  onTradeCalls :: "RealTimeTrade list"
  onErrorCalls :: "string list"
  onConnectionCalls :: "string list"
  onSubscriptionCalls :: "json list"

text \<open>\<^verbatim>\<open>x || d\<close> on an optional count: the default for \<^verbatim>\<open>undefined\<close> and for 0.\<close>

definition or_default :: "nat option \<Rightarrow> nat \<Rightarrow> nat" where
  "or_default x d = (case x of None \<Rightarrow> d | Some n \<Rightarrow> if n = 0 then d else n)"

definition WebSocketService_new :: "nat option \<Rightarrow> nat option \<Rightarrow> WebSocketService" where
  "WebSocketService_new cfgDelay cfgMax =
    \<lparr>ws = None, config_reconnectDelay = cfgDelay, config_maxReconnectAttempts = cfgMax,
     reconnectAttempts = 0, maxReconnectAttempts = or_default cfgMax 5,
     reconnectDelay = or_default cfgDelay 1000, isConnecting = False,
     connectionTimeout = False, subscribeId = None, isSubscribed = False, scheduled = [],
     onTradeCalls = [], onErrorCalls = [], onConnectionCalls = [], onSubscriptionCalls = []\<rparr>"

definition startConnection :: "WebSocketService \<Rightarrow> WebSocketService" where
  "startConnection s =
    (if ws s = Some OPEN then s else s\<lparr>scheduled := scheduled s @ [DeferredConnect 1000]\<rparr>)"

definition attemptReconnect :: "WebSocketService \<Rightarrow> WebSocketService" where
  "attemptReconnect s =
    (if reconnectAttempts s < maxReconnectAttempts s then
       s\<lparr>reconnectAttempts := reconnectAttempts s + 1,
         scheduled := scheduled s @ [Reconnect (reconnectDelay s)],
         reconnectDelay := min (reconnectDelay s * 2) 30000\<rparr>
     else s\<lparr>onErrorCalls := onErrorCalls s @ [''Failed to reconnect after maximum attempts'']\<rparr>)"

text \<open>
  \<^verbatim>\<open>connect\<close>: \<open>constructed\<close> tells whether \<^verbatim>\<open>new WebSocket(url)\<close> returned; when it throws,
  the \<^verbatim>\<open>catch\<close> block runs. The handlers installed on the socket follow.
\<close>

definition connect :: "bool \<Rightarrow> WebSocketService \<Rightarrow> WebSocketService" where
  "connect constructed s =
    (if isConnecting s then s
     else if constructed then
       s\<lparr>isConnecting := True, ws := Some CONNECTING, connectionTimeout := True,
         scheduled := scheduled s @ [ConnectionTimeout 5000]\<rparr>
     else attemptReconnect (s\<lparr>isConnecting := False\<rparr>))"

definition ws_onopen :: "WebSocketService \<Rightarrow> WebSocketService" where
  "ws_onopen s =
    s\<lparr>ws := Some OPEN, isConnecting := False, reconnectAttempts := 0,
      reconnectDelay := or_default (config_reconnectDelay s) 1000,
      connectionTimeout := False,
      onConnectionCalls := onConnectionCalls s @ [''connected'']\<rparr>"

definition ws_onclose :: "WebSocketService \<Rightarrow> WebSocketService" where
  "ws_onclose s =
    attemptReconnect
      (s\<lparr>ws := Some CLOSED, isConnecting := False, connectionTimeout := False,
         onConnectionCalls := onConnectionCalls s @ [''disconnected'']\<rparr>)"

definition ws_onerror :: "WebSocketService \<Rightarrow> WebSocketService" where
  "ws_onerror s =
    s\<lparr>isConnecting := False, connectionTimeout := False,
      onErrorCalls := onErrorCalls s @ [''WebSocket connection error'']\<rparr>"

text \<open>The callbacks of the two timers: the reconnect timer and the 5 second timeout.\<close>

definition reconnectTimerFires :: "bool \<Rightarrow> WebSocketService \<Rightarrow> WebSocketService" where
  "reconnectTimerFires constructed s = (if \<not> isConnecting s then connect constructed s else s)"

definition connectionTimeoutFires :: "WebSocketService \<Rightarrow> WebSocketService" where
  "connectionTimeoutFires s = (if ws s = Some CONNECTING then s\<lparr>ws := Some CLOSING\<rparr> else s)"

text \<open>
  One failed connection: the timer's callback calls \<^verbatim>\<open>connect\<close>, the socket reports an error
  and then closes.
\<close>

definition failedConnection :: "WebSocketService \<Rightarrow> WebSocketService" where
  "failedConnection s = ws_onclose (ws_onerror (reconnectTimerFires True s))"

definition retryTimers :: "WebSocketService \<Rightarrow> nat list" where
  "retryTimers s = concat (map (\<lambda>t. case t of Reconnect d \<Rightarrow> [d] | _ \<Rightarrow> []) (scheduled s))"

definition exhaustedReports :: "WebSocketService \<Rightarrow> nat" where
  "exhaustedReports s =
    length (filter (\<lambda>e. e = ''Failed to reconnect after maximum attempts'') (onErrorCalls s))"

definition handleBinaryMessage :: "byte list \<Rightarrow> WebSocketService \<Rightarrow> WebSocketService" where
  "handleBinaryMessage data s =
    (case deserializeRealTimeTradeData data of
       Inr trade \<Rightarrow> s\<lparr>onTradeCalls := onTradeCalls s @ [trade]\<rparr>
     | Inl e \<Rightarrow> s\<lparr>onErrorCalls := onErrorCalls s @ [''Failed to deserialize binary data'']\<rparr>)"

text \<open>
  A property of a parsed JSON value other than \<^verbatim>\<open>null\<close>, \<open>None\<close> for \<^verbatim>\<open>undefined\<close>: only an
  object has the properties read here. A JSON object is the list of its properties.
\<close>

definition property :: "json \<Rightarrow> string \<Rightarrow> json option" where
  "property j k = (case j of JObject props \<Rightarrow> map_of props k | _ \<Rightarrow> None)"

fun truthy :: "json option \<Rightarrow> bool" where
  "truthy None = False"
| "truthy (Some JNull) = False"
| "truthy (Some (JBool b)) = b"
| "truthy (Some (JNumber n)) = (n \<noteq> 0)"
| "truthy (Some (JString s)) = (s \<noteq> [])"
| "truthy (Some (JArray xs)) = True"
| "truthy (Some (JObject props)) = True"

text \<open>The \<^verbatim>\<open>catch (parseError)\<close> block: the plain-text forms.\<close>

definition handlePlainText :: "string \<Rightarrow> WebSocketService \<Rightarrow> WebSocketService" where
  "handlePlainText message s =
    (if take 13 message = ''subscribe_id:'' then
       s\<lparr>subscribeId := Some (JString (drop 13 message)), isSubscribed := True,
         onSubscriptionCalls := onSubscriptionCalls s @ [JString (drop 13 message)]\<rparr>
     else if message = ''unsubscribed'' then
       s\<lparr>subscribeId := None, isSubscribed := False,
         onSubscriptionCalls := onSubscriptionCalls s @ [JString []]\<rparr>
     else s)"

text \<open>
  \<^verbatim>\<open>handleTextMessage\<close>; \<open>parse\<close> is \<^verbatim>\<open>JSON.parse\<close>, \<open>None\<close> where it throws. Reading a
  property of \<^verbatim>\<open>null\<close> throws as well, so both end in the inner \<^verbatim>\<open>catch\<close>. The outer
  \<^verbatim>\<open>catch\<close>, the only place where this handler calls the error callback, is reached only
  if the inner \<^verbatim>\<open>catch\<close> block throws, which nothing in it does.
\<close>

definition handleTextMessage ::
  "(string \<Rightarrow> json option) \<Rightarrow> string \<Rightarrow> WebSocketService \<Rightarrow> WebSocketService" where
  "handleTextMessage parse message s =
    (case parse message of
       None \<Rightarrow> handlePlainText message s
     | Some JNull \<Rightarrow> handlePlainText message s
     | Some jsonData \<Rightarrow>
        if property jsonData ''action'' = Some (JString ''subscribed'')
           \<and> truthy (property jsonData ''subscribe_id'')
        then s\<lparr>subscribeId := property jsonData ''subscribe_id'', isSubscribed := True,
               onSubscriptionCalls := onSubscriptionCalls s
                  @ (case property jsonData ''subscribe_id'' of Some i \<Rightarrow> [i] | None \<Rightarrow> [])\<rparr>
        else if property jsonData ''action'' = Some (JString ''unsubscribed'')
           \<and> property jsonData ''status'' = Some (JString ''success'')
        then s\<lparr>subscribeId := None, isSubscribed := False,
               onSubscriptionCalls := onSubscriptionCalls s @ [JString []]\<rparr>
        else s)"

section \<open>sdk/api.service\<close>

text \<open>
  What \<^verbatim>\<open>firstValueFrom(this.http.get(...))\<close> settles to: a rejection or the response text.
  \<open>atob\<close> is the platform's base64 decoder, \<open>None\<close> where it throws; the white space
  removed before it is the ASCII white space.
\<close>

datatype http_result = HttpRejected | HttpText string

definition whitespace :: "char \<Rightarrow> bool" where
  "whitespace c \<longleftrightarrow> c \<in> set [CHR '' '', CHR 0x09, CHR 0x0A, CHR 0x0B, CHR 0x0C, CHR 0x0D]"

definition base64ToUint8Array :: "(string \<Rightarrow> byte list option) \<Rightarrow> string \<Rightarrow> byte list option" where
  "base64ToUint8Array atob base64 = atob (filter (\<lambda>c. \<not> whitespace c) base64)"

definition fetchHistoryCandles :: "(string \<Rightarrow> byte list option) \<Rightarrow> http_result \<Rightarrow> Candle list" where
  "fetchHistoryCandles atob settled =
    (case settled of
       HttpRejected \<Rightarrow> []
     | HttpText response \<Rightarrow>
        if response = [] then []
        else (case base64ToUint8Array atob response of
                None \<Rightarrow> []
              | Some binaryData \<Rightarrow>
                 (case deserializeCandleData binaryData of Inl e \<Rightarrow> [] | Inr candles \<Rightarrow> candles)))"

definition fetchSingleCandle :: "(string \<Rightarrow> byte list option) \<Rightarrow> http_result \<Rightarrow> Candle option" where
  "fetchSingleCandle atob settled =
    (case settled of
       HttpRejected \<Rightarrow> None
     | HttpText response \<Rightarrow>
        if response = [] then None
        else (case base64ToUint8Array atob response of
                None \<Rightarrow> None
              | Some binaryData \<Rightarrow>
                 (case deserializeCandleData binaryData of
                    Inl e \<Rightarrow> None
                  | Inr candles \<Rightarrow> (case candles of [] \<Rightarrow> None | c # rest \<Rightarrow> Some c))))"

section \<open>sdk/crypto-chart-sdk\<close>

text \<open>
  \<^verbatim>\<open>ChartData\<close> is the snapshot handed to the chart-update callback; the SDK keeps the same
  four fields and more. Dates are milliseconds since the epoch. \<open>updateInterval\<close> is the
  period of the armed polling timer. The calls of the consumer's callbacks are recorded in
  order.
\<close>

record ChartData =
  candles :: "Candle list"
  lastUpdate :: "int option"
  isLoading :: bool
  error :: "string option"

record CryptoChartSDK = ChartData +
  currentTokenId :: "string option"
  updateInterval :: "nat option"
  chartConfig_maxCandles :: "nat option"
  chartConfig_updateInterval :: "nat option"
  wsService :: WebSocketService
  onChartUpdateCalls :: "ChartData list"
  onErrorNotified :: "string list"

text \<open>
  The constructor: the chart configuration given is spread over the defaults (1000 candles,
  polling every 60000 ms), \<open>None\<close> standing for a key that is not given.
\<close>

definition CryptoChartSDK_new ::
  "nat option \<Rightarrow> nat option \<Rightarrow> nat option \<Rightarrow> nat option \<Rightarrow> CryptoChartSDK" where
  "CryptoChartSDK_new wsDelay wsMax maxCandles pollInterval =
    \<lparr>candles = [], lastUpdate = None, isLoading = False, error = None,
     currentTokenId = None, updateInterval = None,
     chartConfig_maxCandles = Some (case maxCandles of None \<Rightarrow> 1000 | Some n \<Rightarrow> n),
     chartConfig_updateInterval = Some (case pollInterval of None \<Rightarrow> 60000 | Some n \<Rightarrow> n),
     wsService = WebSocketService_new wsDelay wsMax,
     onChartUpdateCalls = [], onErrorNotified = []\<rparr>"

text \<open>A sample candle at a given timestamp, all four prices 10 and no volume.\<close>

definition candleAt :: "int \<Rightarrow> Candle" where
  "candleAt t = \<lparr>OpenPrice = 0x4024000000000000, ClosePrice = 0x4024000000000000,
                 HighPrice = 0x4024000000000000, LowPrice = 0x4024000000000000,
                 VolumeIn = 0, VolumeOut = 0, Timestamp = t\<rparr>"

definition getChartData :: "CryptoChartSDK \<Rightarrow> ChartData" where
  "getChartData s =
    \<lparr>candles = candles s, lastUpdate = lastUpdate s, isLoading = isLoading s, error = error s\<rparr>"

definition notifyChartUpdate :: "CryptoChartSDK \<Rightarrow> CryptoChartSDK" where
  "notifyChartUpdate s = s\<lparr>onChartUpdateCalls := onChartUpdateCalls s @ [getChartData s]\<rparr>"

definition notifyError :: "string \<Rightarrow> CryptoChartSDK \<Rightarrow> CryptoChartSDK" where
  "notifyError e s = s\<lparr>onErrorNotified := onErrorNotified s @ [e]\<rparr>"

text \<open>Truthiness of an optional string and of an optional count.\<close>

definition nonempty :: "string option \<Rightarrow> bool" where
  "nonempty x = (case x of None \<Rightarrow> False | Some t \<Rightarrow> t \<noteq> [])"

definition nonzero :: "nat option \<Rightarrow> bool" where
  "nonzero x = (case x of None \<Rightarrow> False | Some n \<Rightarrow> n \<noteq> 0)"

definition startPeriodicUpdates :: "CryptoChartSDK \<Rightarrow> CryptoChartSDK" where
  "startPeriodicUpdates s =
    (if nonzero (chartConfig_updateInterval s) \<and> nonempty (currentTokenId s)
     then s\<lparr>updateInterval := chartConfig_updateInterval s\<rparr>
     else s\<lparr>updateInterval := None\<rparr>)"

text \<open>
  \<^verbatim>\<open>initialize\<close>; \<open>awaited\<close> is what \<^verbatim>\<open>await this.apiService.fetchHistoryCandles(tokenId)\<close>
  gives: the candles, or a rejection with the message of its \<^verbatim>\<open>Error\<close> if it is one.
\<close>

definition initialize ::
  "string \<Rightarrow> bool \<Rightarrow> int \<Rightarrow> (string option + Candle list) \<Rightarrow> CryptoChartSDK \<Rightarrow> CryptoChartSDK" where
  "initialize tokenId connectWebSocket now awaited s0 =
    (let s1 = s0\<lparr>candles := [], isLoading := True, error := None, currentTokenId := Some tokenId\<rparr>;
         s2 = (case awaited of
                 Inr historicalCandles \<Rightarrow>
                   (let s = notifyChartUpdate (startPeriodicUpdates
                              (s1\<lparr>candles := historicalCandles, lastUpdate := Some now\<rparr>))
                    in if connectWebSocket then s\<lparr>wsService := startConnection (wsService s)\<rparr>
                       else s)
               | Inl err \<Rightarrow>
                   (let message = (case err of Some m \<Rightarrow> m | None \<Rightarrow> ''Failed to initialize SDK'')
                    in notifyError message (s1\<lparr>error := Some message\<rparr>)))
     in s2\<lparr>isLoading := False\<rparr>)"

text \<open>\<^verbatim>\<open>initialize\<close> on the \<^verbatim>\<open>ApiService\<close> of this repository, whose fetch never rejects.\<close>

definition initialize_from_http ::
  "(string \<Rightarrow> byte list option) \<Rightarrow> string \<Rightarrow> bool \<Rightarrow> int \<Rightarrow> http_result
     \<Rightarrow> CryptoChartSDK \<Rightarrow> CryptoChartSDK" where
  "initialize_from_http atob tokenId connectWebSocket now settled s =
    initialize tokenId connectWebSocket now (Inr (fetchHistoryCandles atob settled)) s"








section \<open>Decoding: the size check\<close>

lemma ebind_Inr [simp]: "ebind (Inr x) f = f x"
  by (simp add: ebind_def)

lemma ebind_Inl [simp]: "ebind (Inl e) f = Inl e"
  by (simp add: ebind_def)

lemma readCandle_ok:
  assumes "offset + 56 \<le> length data"
  shows "\<exists>c. readCandle data offset = Inr c"
  using assms by (simp add: readCandle_def getBigInt64_def getFloat64_def getBytes_def Let_def)

lemma readCandles_ok:
  "offset + 56 * n \<le> length data \<Longrightarrow> \<exists>cs. readCandles data offset n = Inr cs \<and> length cs = n"
proof (induction n arbitrary: offset)
  case 0
  show ?case by simp
next
  case (Suc n)
  from Suc.prems have "offset + 56 \<le> length data" by simp
  then obtain c where c: "readCandle data offset = Inr c"
    using readCandle_ok by blast
  from Suc.prems have "(offset + 56) + 56 * n \<le> length data" by simp
  then obtain cs where cs: "readCandles data (offset + 56) n = Inr cs" "length cs = n"
    using Suc.IH by blast
  show ?case
    by (simp only: readCandles.simps c cs(1) ebind_Inr) (simp add: cs(2))
qed

text \<open>
  C5. On a buffer of at least 4 bytes, \<open>deserializeCandleData\<close> throws exactly when the
  length differs from \<open>4 + count * 64\<close>, \<open>count\<close> being the little-endian unsigned value
  of the first four bytes; the error is the invalid-size error carrying both sizes, and
  otherwise a list of \<open>count\<close> candles is returned.
\<close>

theorem deserializeCandleData_fails_iff_size:
  assumes "4 \<le> length data"
  shows "((deserializeCandleData data
            = Inl (InvalidDataSize (4 + le_nat (take 4 data) * 64) (length data)))
          = (length data \<noteq> 4 + le_nat (take 4 data) * 64))
       \<and> ((\<exists>e. deserializeCandleData data = Inl e)
          = (length data \<noteq> 4 + le_nat (take 4 data) * 64))
       \<and> ((\<exists>cs. deserializeCandleData data = Inr cs \<and> length cs = le_nat (take 4 data))
          = (length data = 4 + le_nat (take 4 data) * 64))"
proof -
  let ?count = "le_nat (take 4 data)"
  have cnt: "getUint32 data 0 = Inr ?count"
    using assms by (simp add: getUint32_def getBytes_def)
  have bad: "deserializeCandleData data = Inl (InvalidDataSize (4 + ?count * 64) (length data))"
    if "length data \<noteq> 4 + ?count * 64"
    using that by (simp add: deserializeCandleData_def cnt Let_def)
  have good: "\<exists>cs. deserializeCandleData data = Inr cs \<and> length cs = ?count"
    if "length data = 4 + ?count * 64"
  proof -
    from that have "4 + 56 * ?count \<le> length data" by simp
    then obtain cs where "readCandles data 4 ?count = Inr cs" "length cs = ?count"
      using readCandles_ok by blast
    with that show ?thesis by (simp add: deserializeCandleData_def cnt Let_def)
  qed
  show ?thesis
  proof (cases "length data = 4 + ?count * 64")
    case True
    with good obtain cs where "deserializeCandleData data = Inr cs" "length cs = ?count"
      by blast
    with True show ?thesis by simp
  next
    case False
    with bad have "deserializeCandleData data
        = Inl (InvalidDataSize (4 + ?count * 64) (length data))" by blast
    with False show ?thesis by simp
  qed
qed

text \<open>
  Scenario D: a 28-byte buffer whose count field is 1 (one record, 40 bytes short of a
  64-byte record) is rejected with the invalid-size error, expected 68, got 28.
\<close>

theorem deserializeCandleData_fails_iff_size_witness:
  "4 \<le> length ([1, 0, 0, 0] @ replicate 24 (0 :: byte))
   \<and> deserializeCandleData ([1, 0, 0, 0] @ replicate 24 0) = Inl (InvalidDataSize 68 28)"
  using deserializeCandleData_fails_iff_size [of "[1, 0, 0, 0] @ replicate 24 0"]
  by simp

section \<open>Encoding, then decoding\<close>

lemma length_le_bytes [simp]: "length (le_bytes k n) = k"
  by (induction k arbitrary: n) auto

lemma le_nat_le_bytes: "le_nat (le_bytes k n) = n mod 256 ^ k"
proof (induction k arbitrary: n)
  case 0 show ?case by simp
next
  case (Suc k)
  have "unat (of_nat (n mod 256) :: byte) = n mod 256"
    by (simp add: unat_of_nat)
  then show ?case
    by (simp add: Suc.IH mod_mult2_eq)
qed

lemma length_int64_bytes [simp]: "length (int64_bytes v) = 8"
  by (simp add: int64_bytes_def)

lemma length_float64_bytes [simp]: "length (float64_bytes x) = 8"
  by (simp add: float64_bytes_def)

lemma length_candle_bytes [simp]: "length (candle_bytes c) = 56"
  by (simp add: candle_bytes_def)

lemma setBytes_append:
  "length pre = offset \<Longrightarrow> length bs \<le> length post \<Longrightarrow>
   setBytes (pre @ post) offset bs = Inr (pre @ bs @ drop (length bs) post)"
  by (simp add: setBytes_def)

lemma getBytes_append:
  "length pre = offset \<Longrightarrow> length bs = k \<Longrightarrow>
   getBytes (pre @ bs @ post) offset k = Inr bs"
  by (simp add: getBytes_def)

lemma setBigInt64_append:
  "length pre = offset \<Longrightarrow> 8 \<le> length post \<Longrightarrow>
   setBigInt64 (pre @ post) offset v = Inr ((pre @ int64_bytes v) @ drop 8 post)"
  by (simp add: setBigInt64_def int64_bytes_def setBytes_append)

lemma setFloat64_append:
  "length pre = offset \<Longrightarrow> 8 \<le> length post \<Longrightarrow>
   setFloat64 (pre @ post) offset x = Inr ((pre @ float64_bytes x) @ drop 8 post)"
  by (simp add: setFloat64_def float64_bytes_def setBytes_append)

lemma writeCandles_append:
  "length pre = offset \<Longrightarrow> 56 * length cs \<le> length post \<Longrightarrow>
   writeCandles (pre @ post) offset cs
     = Inr (pre @ concat (map candle_bytes cs) @ drop (56 * length cs) post)"
proof (induction cs arbitrary: pre post offset)
  case Nil
  show ?case by simp
next
  case (Cons c cs)
  define p1 where "p1 = pre @ int64_bytes (Timestamp c)"
  define p2 where "p2 = p1 @ float64_bytes (OpenPrice c)"
  define p3 where "p3 = p2 @ float64_bytes (ClosePrice c)"
  define p4 where "p4 = p3 @ float64_bytes (HighPrice c)"
  define p5 where "p5 = p4 @ float64_bytes (LowPrice c)"
  define p6 where "p6 = p5 @ float64_bytes (VolumeIn c)"
  define p7 where "p7 = p6 @ float64_bytes (VolumeOut c)"
  have len: "length p1 = offset + 8" "length p2 = offset + 16" "length p3 = offset + 24"
    "length p4 = offset + 32" "length p5 = offset + 40" "length p6 = offset + 48"
    "length p7 = offset + 56"
    using Cons.prems(1) by (simp_all add: p1_def p2_def p3_def p4_def p5_def p6_def p7_def)
  have post: "56 + 56 * length cs \<le> length post"
    using Cons.prems(2) by simp
  have s1: "setBigInt64 (pre @ post) offset (Timestamp c) = Inr (p1 @ drop 8 post)"
    unfolding p1_def using Cons.prems(1) post by (intro setBigInt64_append) simp_all
  have s2: "setFloat64 (p1 @ drop 8 post) (offset + 8) (OpenPrice c) = Inr (p2 @ drop 16 post)"
    using setFloat64_append [of p1 "offset + 8" "drop 8 post" "OpenPrice c"] len post
    by (simp add: p2_def)
  have s3: "setFloat64 (p2 @ drop 16 post) (offset + 16) (ClosePrice c) = Inr (p3 @ drop 24 post)"
    using setFloat64_append [of p2 "offset + 16" "drop 16 post" "ClosePrice c"] len post
    by (simp add: p3_def)
  have s4: "setFloat64 (p3 @ drop 24 post) (offset + 24) (HighPrice c) = Inr (p4 @ drop 32 post)"
    using setFloat64_append [of p3 "offset + 24" "drop 24 post" "HighPrice c"] len post
    by (simp add: p4_def)
  have s5: "setFloat64 (p4 @ drop 32 post) (offset + 32) (LowPrice c) = Inr (p5 @ drop 40 post)"
    using setFloat64_append [of p4 "offset + 32" "drop 32 post" "LowPrice c"] len post
    by (simp add: p5_def)
  have s6: "setFloat64 (p5 @ drop 40 post) (offset + 40) (VolumeIn c) = Inr (p6 @ drop 48 post)"
    using setFloat64_append [of p5 "offset + 40" "drop 40 post" "VolumeIn c"] len post
    by (simp add: p6_def)
  have s7: "setFloat64 (p6 @ drop 48 post) (offset + 48) (VolumeOut c) = Inr (p7 @ drop 56 post)"
    using setFloat64_append [of p6 "offset + 48" "drop 48 post" "VolumeOut c"] len post
    by (simp add: p7_def)
  have rest: "writeCandles (p7 @ drop 56 post) (offset + 56) cs
      = Inr (p7 @ concat (map candle_bytes cs) @ drop (56 * length cs) (drop 56 post))"
    using len(7) post by (intro Cons.IH) simp_all
  have p7: "p7 = pre @ candle_bytes c"
    by (simp add: p1_def p2_def p3_def p4_def p5_def p6_def p7_def candle_bytes_def)
  have "writeCandles (pre @ post) offset (c # cs)
      = writeCandles (p7 @ drop 56 post) (offset + 56) cs"
    by (simp only: writeCandles.simps s1 s2 s3 s4 s5 s6 s7 ebind_Inr)
  also have "\<dots> = Inr (pre @ concat (map candle_bytes (c # cs))
      @ drop (56 * length (c # cs)) post)"
    by (simp only: rest) (simp add: p7 add.commute)
  finally show ?case .
qed

lemma createMockBinaryData_bytes:
  "createMockBinaryData cs
     = Inr (le_bytes 4 (length cs mod 2 ^ 32) @ concat (map candle_bytes cs)
            @ replicate (8 * length cs) 0)"
proof -
  let ?n = "length cs"
  have split: "replicate (4 + ?n * 64) (0 :: byte) = [] @ replicate (4 + ?n * 64) 0"
    by simp
  have hdr: "setUint32 (replicate (4 + ?n * 64) 0) 0 ?n
      = Inr (le_bytes 4 (?n mod 2 ^ 32) @ replicate (?n * 64) 0)"
    by (simp add: setUint32_def setBytes_def)
  have "writeCandles (le_bytes 4 (?n mod 2 ^ 32) @ replicate (?n * 64) 0) 4 cs
      = Inr (le_bytes 4 (?n mod 2 ^ 32) @ concat (map candle_bytes cs)
             @ drop (56 * ?n) (replicate (?n * 64) 0))"
    by (intro writeCandles_append) simp_all
  moreover have "drop (56 * ?n) (replicate (?n * 64) (0 :: byte)) = replicate (8 * ?n) 0"
    by simp
  ultimately show ?thesis
    by (simp add: createMockBinaryData_def hdr Let_def)
qed

lemma getBigInt64_append:
  assumes "length pre = offset" and "- (2 ^ 63) \<le> v" and "v < 2 ^ 63"
  shows "getBigInt64 (pre @ int64_bytes v @ post) offset = Inr v"
proof -
  have bytes: "getBytes (pre @ int64_bytes v @ post) offset 8 = Inr (int64_bytes v)"
    using assms(1) by (intro getBytes_append) simp_all
  have "v mod 2 ^ 64 < 2 ^ 64"
    by simp
  then have "nat (v mod 2 ^ 64) < 2 ^ 64"
    by (simp add: nat_less_iff)
  then have n: "le_nat (int64_bytes v) = nat (v mod 2 ^ 64)"
    by (simp add: int64_bytes_def le_nat_le_bytes)
  show ?thesis
  proof (cases "0 \<le> v")
    case True
    with assms(3) have "v mod 2 ^ 64 = v" by simp
    with True assms(3) show ?thesis
      by (simp add: getBigInt64_def bytes n Let_def)
  next
    case False
    with assms(2) have "(v + 2 ^ 64) mod 2 ^ 64 = v + 2 ^ 64"
      by (intro mod_pos_pos_trivial) simp_all
    moreover have "(v + 2 ^ 64) mod 2 ^ 64 = v mod 2 ^ 64"
      by (rule mod_add_self2)
    ultimately have "v mod 2 ^ 64 = v + 2 ^ 64"
      by simp
    with False assms(2) show ?thesis
      by (simp add: getBigInt64_def bytes n Let_def)
  qed
qed

lemma getFloat64_append:
  assumes "length pre = offset"
  shows "getFloat64 (pre @ float64_bytes x @ post) offset = Inr x"
proof -
  have bytes: "getBytes (pre @ float64_bytes x @ post) offset 8 = Inr (float64_bytes x)"
    using assms by (intro getBytes_append) simp_all
  have "unat x < 2 ^ 64"
    using unsigned_less [of x] by simp
  then have "le_nat (float64_bytes x) = unat x"
    by (simp add: float64_bytes_def le_nat_le_bytes)
  then show ?thesis
    by (simp add: getFloat64_def bytes)
qed

lemma readCandle_append:
  assumes "length pre = offset" and "int64_Number (Timestamp c)"
  shows "readCandle (pre @ candle_bytes c @ post) offset = Inr c"
proof -
  let ?t = "int64_bytes (Timestamp c)"
  let ?o = "float64_bytes (OpenPrice c)"
  let ?c = "float64_bytes (ClosePrice c)"
  let ?h = "float64_bytes (HighPrice c)"
  let ?l = "float64_bytes (LowPrice c)"
  let ?vi = "float64_bytes (VolumeIn c)"
  let ?vo = "float64_bytes (VolumeOut c)"
  let ?data = "pre @ candle_bytes c @ post"
  have r1: "getBigInt64 ?data offset = Inr (Timestamp c)"
    using getBigInt64_append [of pre offset "Timestamp c" "?o @ ?c @ ?h @ ?l @ ?vi @ ?vo @ post"]
      assms by (simp add: candle_bytes_def int64_Number_def)
  have r2: "getFloat64 ?data (offset + 8) = Inr (OpenPrice c)"
    using getFloat64_append [of "pre @ ?t" "offset + 8" "OpenPrice c" "?c @ ?h @ ?l @ ?vi @ ?vo @ post"]
      assms by (simp add: candle_bytes_def)
  have r3: "getFloat64 ?data (offset + 16) = Inr (ClosePrice c)"
    using getFloat64_append [of "pre @ ?t @ ?o" "offset + 16" "ClosePrice c" "?h @ ?l @ ?vi @ ?vo @ post"]
      assms by (simp add: candle_bytes_def)
  have r4: "getFloat64 ?data (offset + 24) = Inr (HighPrice c)"
    using getFloat64_append [of "pre @ ?t @ ?o @ ?c" "offset + 24" "HighPrice c" "?l @ ?vi @ ?vo @ post"]
      assms by (simp add: candle_bytes_def)
  have r5: "getFloat64 ?data (offset + 32) = Inr (LowPrice c)"
    using getFloat64_append [of "pre @ ?t @ ?o @ ?c @ ?h" "offset + 32" "LowPrice c" "?vi @ ?vo @ post"]
      assms by (simp add: candle_bytes_def)
  have r6: "getFloat64 ?data (offset + 40) = Inr (VolumeIn c)"
    using getFloat64_append [of "pre @ ?t @ ?o @ ?c @ ?h @ ?l" "offset + 40" "VolumeIn c" "?vo @ post"]
      assms by (simp add: candle_bytes_def)
  have r7: "getFloat64 ?data (offset + 48) = Inr (VolumeOut c)"
    using getFloat64_append [of "pre @ ?t @ ?o @ ?c @ ?h @ ?l @ ?vi" "offset + 48" "VolumeOut c" post]
      assms by (simp add: candle_bytes_def)
  have "Number_of_BigInt (Timestamp c) = Timestamp c"
    using assms(2) by (simp add: int64_Number_def)
  then show ?thesis
    by (simp only: readCandle_def r1 r2 r3 r4 r5 r6 r7 ebind_Inr) simp
qed

lemma readCandles_append:
  "length pre = offset \<Longrightarrow> \<forall>c\<in>set cs. int64_Number (Timestamp c) \<Longrightarrow>
   readCandles (pre @ concat (map candle_bytes cs) @ post) offset (length cs) = Inr cs"
proof (induction cs arbitrary: pre offset)
  case Nil
  show ?case by simp
next
  case (Cons c cs)
  let ?rest = "concat (map candle_bytes cs) @ post"
  have one: "readCandle (pre @ candle_bytes c @ ?rest) offset = Inr c"
    using Cons.prems by (intro readCandle_append) simp_all
  have more: "readCandles ((pre @ candle_bytes c) @ ?rest) (offset + 56) (length cs) = Inr cs"
    using Cons.prems by (intro Cons.IH) simp_all
  have shape: "pre @ concat (map candle_bytes (c # cs)) @ post = pre @ candle_bytes c @ ?rest"
    by simp
  have shape': "pre @ candle_bytes c @ ?rest = (pre @ candle_bytes c) @ ?rest"
    by simp
  have "readCandles (pre @ candle_bytes c @ ?rest) offset (Suc (length cs)) = Inr (c # cs)"
    apply (simp only: readCandles.simps one ebind_Inr)
    apply (simp only: shape' more ebind_Inr)
    done
  then show ?case
    by simp
qed

lemma deserialize_wire_bytes:
  assumes "length cs < 2 ^ 32" and "\<forall>c\<in>set cs. int64_Number (Timestamp c)"
  shows "deserializeCandleData
           (le_bytes 4 (length cs) @ concat (map candle_bytes cs) @ replicate (8 * length cs) 0)
         = Inr cs"
proof -
  let ?n = "length cs"
  let ?hdr = "le_bytes 4 ?n"
  let ?data = "?hdr @ concat (map candle_bytes cs) @ replicate (8 * ?n) 0"
  have len: "length ?data = 4 + ?n * 64"
    by (simp add: length_concat comp_def sum_list_triv)
  have "getBytes (?hdr @ concat (map candle_bytes cs) @ replicate (8 * ?n) 0) 0 4 = Inr ?hdr"
    using getBytes_append [of "[]" 0 ?hdr 4] by simp
  moreover have "le_nat ?hdr = ?n"
    using assms(1) by (simp add: le_nat_le_bytes)
  ultimately have cnt: "getUint32 ?data 0 = Inr ?n"
    by (simp add: getUint32_def)
  have body: "readCandles ?data 4 ?n = Inr cs"
    using assms(2) by (intro readCandles_append) simp_all
  show ?thesis
    by (simp only: deserializeCandleData_def cnt ebind_Inr Let_def len body) simp
qed

text \<open>
  C3, as amended. For every sequence of fewer than \<open>2 ^ 32\<close> candles (an array cannot be
  longer) whose timestamps are integer numbers of the signed 64-bit range, the encoder
  returns a buffer of \<open>4 + 64 * length\<close> bytes and decoding that buffer gives the sequence
  back, every price and volume with the bit pattern it had. The repository has no encoder
  for a trade record, so nothing is stated for one.
\<close>

theorem createMockBinaryData_roundtrip:
  assumes "length cs < 2 ^ 32" and "\<forall>c\<in>set cs. int64_Number (Timestamp c)"
  shows "\<exists>bytes. createMockBinaryData cs = Inr bytes \<and> length bytes = 4 + length cs * 64
           \<and> deserializeCandleData bytes = Inr cs"
proof -
  let ?data = "le_bytes 4 (length cs) @ concat (map candle_bytes cs)
                 @ replicate (8 * length cs) 0"
  have enc: "createMockBinaryData cs = Inr ?data"
    using assms(1) by (simp add: createMockBinaryData_bytes)
  have len: "length ?data = 4 + length cs * 64"
    by (simp add: length_concat comp_def sum_list_triv)
  have dec: "deserializeCandleData ?data = Inr cs"
    using assms by (rule deserialize_wire_bytes)
  from enc len dec show ?thesis
    by blast
qed

theorem createMockBinaryData_roundtrip_witness:
  "length [\<lparr>OpenPrice = 0x4024000000000000, ClosePrice = 0x4028000000000000,
            HighPrice = 0x402A000000000000, LowPrice = 0x4022000000000000,
            VolumeIn = 0x4059000000000000, VolumeOut = 0x4000000000000000,
            Timestamp = 60\<rparr>] < (2 :: nat) ^ 32
   \<and> int64_Number 60
   \<and> (\<exists>bytes. createMockBinaryData
          [\<lparr>OpenPrice = 0x4024000000000000, ClosePrice = 0x4028000000000000,
            HighPrice = 0x402A000000000000, LowPrice = 0x4022000000000000,
            VolumeIn = 0x4059000000000000, VolumeOut = 0x4000000000000000,
            Timestamp = 60\<rparr>] = Inr bytes
        \<and> length bytes = 68
        \<and> deserializeCandleData bytes
            = Inr [\<lparr>OpenPrice = 0x4024000000000000, ClosePrice = 0x4028000000000000,
                    HighPrice = 0x402A000000000000, LowPrice = 0x4022000000000000,
                    VolumeIn = 0x4059000000000000, VolumeOut = 0x4000000000000000,
                    Timestamp = 60\<rparr>])"
  using createMockBinaryData_roundtrip
    [of "[\<lparr>OpenPrice = 0x4024000000000000, ClosePrice = 0x4028000000000000,
            HighPrice = 0x402A000000000000, LowPrice = 0x4022000000000000,
            VolumeIn = 0x4059000000000000, VolumeOut = 0x4000000000000000,
            Timestamp = 60\<rparr>]"]
  by (simp add: int64_Number_def Number_of_BigInt_def)

text \<open>
  C3 as stated fails: a candle whose timestamp is \<open>2 ^ 64\<close> (an integer number outside the
  signed 64-bit range) is written with timestamp bytes all zero and decodes to a candle
  with timestamp 0.
\<close>

theorem createMockBinaryData_roundtrip_counterexample:
  "ebind (createMockBinaryData
      [\<lparr>OpenPrice = 0, ClosePrice = 0, HighPrice = 0, LowPrice = 0, VolumeIn = 0,
        VolumeOut = 0, Timestamp = 2 ^ 64\<rparr>]) deserializeCandleData
    = Inr [\<lparr>OpenPrice = 0, ClosePrice = 0, HighPrice = 0, LowPrice = 0, VolumeIn = 0,
            VolumeOut = 0, Timestamp = 0\<rparr>]
   \<and> ebind (createMockBinaryData
      [\<lparr>OpenPrice = 0, ClosePrice = 0, HighPrice = 0, LowPrice = 0, VolumeIn = 0,
        VolumeOut = 0, Timestamp = 2 ^ 64\<rparr>]) deserializeCandleData
    \<noteq> Inr [\<lparr>OpenPrice = 0, ClosePrice = 0, HighPrice = 0, LowPrice = 0, VolumeIn = 0,
            VolumeOut = 0, Timestamp = 2 ^ 64\<rparr>]"
proof -
  let ?big = "\<lparr>OpenPrice = 0, ClosePrice = 0, HighPrice = 0, LowPrice = 0, VolumeIn = 0,
        VolumeOut = 0, Timestamp = 2 ^ 64\<rparr> :: Candle"
  let ?zero = "\<lparr>OpenPrice = 0, ClosePrice = 0, HighPrice = 0, LowPrice = 0, VolumeIn = 0,
        VolumeOut = 0, Timestamp = 0\<rparr> :: Candle"
  have same: "candle_bytes ?big = candle_bytes ?zero"
    by (simp add: candle_bytes_def int64_bytes_def)
  have "createMockBinaryData [?big]
      = Inr (le_bytes 4 1 @ candle_bytes ?big @ replicate 8 0)"
    by (simp add: createMockBinaryData_bytes)
  then have "createMockBinaryData [?big]
      = Inr (le_bytes 4 1 @ candle_bytes ?zero @ replicate 8 0)"
    by (simp only: same)
  moreover have "deserializeCandleData (le_bytes 4 1 @ candle_bytes ?zero @ replicate 8 0)
      = Inr [?zero]"
    using deserialize_wire_bytes [of "[?zero]"]
    by (simp add: int64_Number_def Number_of_BigInt_def)
  ultimately have "ebind (createMockBinaryData [?big]) deserializeCandleData = Inr [?zero]"
    by (simp only: ebind_Inr)
  then show ?thesis
    by simp
qed

section \<open>Decoding a trade\<close>

lemma isNaN_NaN: "isNaN NaN"
  by (simp add: isNaN_def NaN_def f64_exponent_def f64_fraction_def)

lemma isInfinity_pack: "isInfinity (f64_pack neg Infinity_mag)"
  by (simp add: isInfinity_def f64_pack_def Infinity_mag_def f64_exponent_def f64_fraction_def)

lemma js_div_by_zero:
  assumes "isZero b"
  shows "isNaN (js_div a b) \<or> isInfinity (js_div a b)"
proof -
  have "unat b mod 2 ^ 63 = 0"
    using assms by (simp add: isZero_def f64_magnitude_def)
  then have "2 ^ 63 dvd unat b"
    by (simp add: dvd_eq_mod_eq_0)
  then obtain q where q: "unat b = 2 ^ 63 * q"
    by (rule dvdE)
  have "unat b div 2 ^ 52 = 2048 * q"
    by (simp add: q)
  then have "f64_exponent b = 0"
    by (simp add: f64_exponent_def)
  then have "\<not> isInfinity b"
    by (simp add: isInfinity_def)
  with assms show ?thesis
    by (simp add: js_div_def Let_def isNaN_NaN isInfinity_pack)
qed

lemma trade_fields:
  assumes "length data = 24"
  shows "deserializeRealTimeTradeData data
    = Inr \<lparr>TradeTime = Number_of_BigInt
              (let n = le_nat (take 8 data) in if n < 2 ^ 63 then int n else int n - 2 ^ 64),
            USD = of_nat (le_nat (take 8 (drop 8 data))),
            Amount = of_nat (le_nat (take 8 (drop 16 data))),
            Price = js_div (of_nat (le_nat (take 8 (drop 8 data))))
                           (of_nat (le_nat (take 8 (drop 16 data))))\<rparr>"
  using assms
  by (simp add: deserializeRealTimeTradeData_def getBigInt64_def getFloat64_def getBytes_def Let_def)

text \<open>
  C4, as amended. \<open>deserializeRealTimeTradeData\<close> throws exactly on a payload whose
  length is not 24. On every 24-byte payload it returns a trade whose price is the quotient
  \<^verbatim>\<open>usd / amount\<close> of the two decoded amounts; when the decoded amount is zero (\<open>+0\<close> or
  \<open>-0\<close>) that quotient is NaN or an infinity, and it is returned, not thrown.
\<close>

theorem deserializeRealTimeTradeData_zero_amount:
  "((\<exists>e. deserializeRealTimeTradeData data = Inl e) = (length data \<noteq> 24))
   \<and> (length data = 24 \<longrightarrow>
        (\<exists>trade. deserializeRealTimeTradeData data = Inr trade
           \<and> Price trade = js_div (USD trade) (Amount trade)
           \<and> (isZero (Amount trade) \<longrightarrow> isNaN (Price trade) \<or> isInfinity (Price trade))))"
proof (cases "length data = 24")
  case True
  from trade_fields [OF True] obtain trade where
    t: "deserializeRealTimeTradeData data = Inr trade"
       "Price trade = js_div (USD trade) (Amount trade)"
    by simp
  have "isZero (Amount trade) \<longrightarrow> isNaN (Price trade) \<or> isInfinity (Price trade)"
    using js_div_by_zero [of "Amount trade" "USD trade"] t(2) by simp
  with t True show ?thesis
    by auto
next
  case False
  then have "deserializeRealTimeTradeData data = Inl (InvalidTradeSize 24 (length data))"
    by (simp add: deserializeRealTimeTradeData_def)
  with False show ?thesis
    by simp
qed

theorem deserializeRealTimeTradeData_zero_amount_witness:
  "length [0, 0, 0, 0, 0, 0, 0, 0,  0, 0, 0, 0, 0, 0, 0, 0,  0, 0, 0, 0, 0, 0, 0, 0 :: byte] = 24
   \<and> isZero 0
   \<and> (\<exists>trade. deserializeRealTimeTradeData
          [0, 0, 0, 0, 0, 0, 0, 0,  0, 0, 0, 0, 0, 0, 0, 0,  0, 0, 0, 0, 0, 0, 0, 0] = Inr trade
        \<and> Amount trade = 0 \<and> (isNaN (Price trade) \<or> isInfinity (Price trade)))"
  using deserializeRealTimeTradeData_zero_amount
    [of "[0, 0, 0, 0, 0, 0, 0, 0,  0, 0, 0, 0, 0, 0, 0, 0,  0, 0, 0, 0, 0, 0, 0, 0]"]
  by (auto simp add: isZero_def f64_magnitude_def deserializeRealTimeTradeData_def
      getBigInt64_def getFloat64_def getBytes_def Let_def)

text \<open>
  C4 as stated fails: a 24-byte payload with trade time 60, quote amount 12 and base amount
  0 decodes to a trade, with price \<open>+Infinity\<close>.
\<close>

theorem deserializeRealTimeTradeData_zero_amount_counterexample:
  "deserializeRealTimeTradeData
     [60, 0, 0, 0, 0, 0, 0, 0,  0, 0, 0, 0, 0, 0, 0x28, 0x40,  0, 0, 0, 0, 0, 0, 0, 0]
   = Inr \<lparr>TradeTime = 60, USD = 0x4028000000000000, Amount = 0, Price = 0x7FF0000000000000\<rparr>"
  by (simp add: deserializeRealTimeTradeData_def getBigInt64_def getFloat64_def getBytes_def
      Number_of_BigInt_def Let_def js_div_def isNaN_def isInfinity_def isZero_def f64_exponent_def
      f64_fraction_def f64_magnitude_def f64_sign_def f64_pack_def Infinity_mag_def)

section \<open>Merging a trade\<close>

lemma candles_notifyChartUpdate [simp]: "candles (notifyChartUpdate s) = candles s"
  by (simp add: notifyChartUpdate_def)












section \<open>Polling: upsert and pruning\<close>









section \<open>Reconnecting\<close>

lemma failedConnection_retries:
  assumes "\<not> isConnecting s" and "reconnectAttempts s < maxReconnectAttempts s"
  shows "\<not> isConnecting (failedConnection s)"
    and "reconnectAttempts (failedConnection s) = reconnectAttempts s + 1"
    and "maxReconnectAttempts (failedConnection s) = maxReconnectAttempts s"
    and "retryTimers (failedConnection s) = retryTimers s @ [reconnectDelay s]"
    and "exhaustedReports (failedConnection s) = exhaustedReports s"
  using assms
  by (simp_all add: failedConnection_def reconnectTimerFires_def connect_def ws_onerror_def
      ws_onclose_def attemptReconnect_def retryTimers_def exhaustedReports_def)

lemma failedConnection_gives_up:
  assumes "\<not> isConnecting s" and "\<not> reconnectAttempts s < maxReconnectAttempts s"
  shows "\<not> isConnecting (failedConnection s)"
    and "reconnectAttempts (failedConnection s) = reconnectAttempts s"
    and "maxReconnectAttempts (failedConnection s) = maxReconnectAttempts s"
    and "retryTimers (failedConnection s) = retryTimers s"
    and "exhaustedReports (failedConnection s) = exhaustedReports s + 1"
  using assms
  by (simp_all add: failedConnection_def reconnectTimerFires_def connect_def ws_onerror_def
      ws_onclose_def attemptReconnect_def retryTimers_def exhaustedReports_def)

lemma funpow_4: "(f ^^ 4) x = f (f (f (f x)))"
  by (simp add: eval_nat_numeral)

lemma funpow_5: "(f ^^ 5) x = f ((f ^^ 4) x)"
  by (simp add: eval_nat_numeral)

lemma funpow_6: "(f ^^ 6) x = f ((f ^^ 5) x)"
  by (simp add: eval_nat_numeral)

lemma failures_within_limit:
  assumes "\<not> isConnecting s" and "reconnectAttempts s = 0"
  shows "k \<le> maxReconnectAttempts s \<Longrightarrow>
         \<not> isConnecting ((failedConnection ^^ k) s)
         \<and> reconnectAttempts ((failedConnection ^^ k) s) = k
         \<and> maxReconnectAttempts ((failedConnection ^^ k) s) = maxReconnectAttempts s
         \<and> length (retryTimers ((failedConnection ^^ k) s)) = length (retryTimers s) + k
         \<and> exhaustedReports ((failedConnection ^^ k) s) = exhaustedReports s"
proof (induction k)
  case 0
  show ?case using assms by simp
next
  case (Suc k)
  let ?s = "(failedConnection ^^ k) s"
  from Suc have ih: "\<not> isConnecting ?s" "reconnectAttempts ?s = k"
    "maxReconnectAttempts ?s = maxReconnectAttempts s"
    "length (retryTimers ?s) = length (retryTimers s) + k"
    "exhaustedReports ?s = exhaustedReports s"
    by simp_all
  from Suc.prems ih have lt: "reconnectAttempts ?s < maxReconnectAttempts ?s"
    by simp
  show ?case
    using failedConnection_retries [OF ih(1) lt] ih by simp
qed

text \<open>
  C8, as amended. With \<open>maxReconnectAttempts = 5\<close> and the attempt counter at 0, each of
  the first five consecutive failed connections schedules one more reconnect timer and
  reports no exhaustion: the fifth failure schedules the fifth retry. The sixth failure
  (the first connection and five reconnect attempts have failed) schedules no timer and
  calls the error callback once with the message that reconnecting was given up.
\<close>

theorem reconnect_exhausted_after_sixth_failure:
  assumes "\<not> isConnecting s" and "reconnectAttempts s = 0" and "maxReconnectAttempts s = 5"
  shows "length (retryTimers ((failedConnection ^^ 5) s)) = length (retryTimers s) + 5
       \<and> length (retryTimers ((failedConnection ^^ 4) s)) = length (retryTimers s) + 4
       \<and> exhaustedReports ((failedConnection ^^ 5) s) = exhaustedReports s
       \<and> retryTimers ((failedConnection ^^ 6) s) = retryTimers ((failedConnection ^^ 5) s)
       \<and> exhaustedReports ((failedConnection ^^ 6) s) = exhaustedReports s + 1"
proof -
  let ?s5 = "(failedConnection ^^ 5) s"
  have five: "\<not> isConnecting ?s5" "reconnectAttempts ?s5 = 5" "maxReconnectAttempts ?s5 = 5"
    "length (retryTimers ?s5) = length (retryTimers s) + 5"
    "exhaustedReports ?s5 = exhaustedReports s"
    using failures_within_limit [OF assms(1,2), of 5] assms(3) by simp_all
  have four: "length (retryTimers ((failedConnection ^^ 4) s)) = length (retryTimers s) + 4"
    using failures_within_limit [OF assms(1,2), of 4] assms(3) by simp
  have stop: "\<not> reconnectAttempts ?s5 < maxReconnectAttempts ?s5"
    using five by simp
  have six: "(failedConnection ^^ 6) s = failedConnection ?s5"
    by (rule funpow_6)
  show ?thesis
    using failedConnection_gives_up [OF five(1) stop] five four
    by (simp add: six)
qed

theorem reconnect_exhausted_after_sixth_failure_witness:
  "\<not> isConnecting (WebSocketService_new (Some 1000) (Some 5))
   \<and> reconnectAttempts (WebSocketService_new (Some 1000) (Some 5)) = 0
   \<and> maxReconnectAttempts (WebSocketService_new (Some 1000) (Some 5)) = 5
   \<and> length (retryTimers ((failedConnection ^^ 5) (WebSocketService_new (Some 1000) (Some 5)))) = 5
   \<and> exhaustedReports ((failedConnection ^^ 5) (WebSocketService_new (Some 1000) (Some 5))) = 0
   \<and> length (retryTimers ((failedConnection ^^ 6) (WebSocketService_new (Some 1000) (Some 5)))) = 5
   \<and> exhaustedReports ((failedConnection ^^ 6) (WebSocketService_new (Some 1000) (Some 5))) = 1"
  using reconnect_exhausted_after_sixth_failure [of "WebSocketService_new (Some 1000) (Some 5)"]
  by (simp add: WebSocketService_new_def or_default_def retryTimers_def exhaustedReports_def)

text \<open>
  C8 as stated fails: on a fresh service with \<open>maxReconnectAttempts = 5\<close> and an initial
  delay of 1000 ms, four failures have scheduled four reconnect timers and the fifth failure
  schedules a fifth, after 16000 ms; the error callback has only received the five
  connection errors, not the report of exhaustion.
\<close>

theorem reconnect_exhausted_counterexample:
  "retryTimers ((failedConnection ^^ 4) (WebSocketService_new (Some 1000) (Some 5)))
     = [1000, 2000, 4000, 8000]
   \<and> retryTimers ((failedConnection ^^ 5) (WebSocketService_new (Some 1000) (Some 5)))
     = [1000, 2000, 4000, 8000, 16000]
   \<and> onErrorCalls ((failedConnection ^^ 5) (WebSocketService_new (Some 1000) (Some 5)))
     = [''WebSocket connection error'', ''WebSocket connection error'',
        ''WebSocket connection error'', ''WebSocket connection error'',
        ''WebSocket connection error'']
   \<and> exhaustedReports ((failedConnection ^^ 5) (WebSocketService_new (Some 1000) (Some 5))) = 0"
  by (simp add: funpow_4 funpow_5 WebSocketService_new_def or_default_def failedConnection_def
      reconnectTimerFires_def connect_def ws_onerror_def ws_onclose_def attemptReconnect_def
      retryTimers_def exhaustedReports_def)

section \<open>Initialising\<close>

text \<open>
  C9, as amended. When the HTTP request for the history fails, \<open>fetchHistoryCandles\<close>
  catches the failure and returns the empty list, and \<open>initialize\<close>, which has emptied the
  series before fetching, ends with an empty series and no error: the error callback is
  not called, and the chart-update callback receives the empty series. Were the fetch to
  reject instead, \<open>initialize\<close> would report the message to the error callback, the series
  being empty all the same.
\<close>

theorem initialize_after_failed_fetch:
  "fetchHistoryCandles atob HttpRejected = []
   \<and> candles (initialize_from_http atob tokenId connectWebSocket now HttpRejected s) = []
   \<and> error (initialize_from_http atob tokenId connectWebSocket now HttpRejected s) = None
   \<and> onErrorNotified (initialize_from_http atob tokenId connectWebSocket now HttpRejected s)
       = onErrorNotified s
   \<and> onChartUpdateCalls (initialize_from_http atob tokenId connectWebSocket now HttpRejected s)
       = onChartUpdateCalls s
         @ [\<lparr>candles = [], lastUpdate = Some now, isLoading = True, error = None\<rparr>]
   \<and> candles (initialize tokenId connectWebSocket now (Inl rejection) s) = []
   \<and> onErrorNotified (initialize tokenId connectWebSocket now (Inl rejection) s)
       = onErrorNotified s
         @ [case rejection of Some m \<Rightarrow> m | None \<Rightarrow> ''Failed to initialize SDK'']"
  by (simp add: fetchHistoryCandles_def initialize_from_http_def initialize_def Let_def
      notifyChartUpdate_def notifyError_def startPeriodicUpdates_def getChartData_def)

text \<open>
  C9 as stated fails: with two candles loaded, a failed history request leaves the series
  empty and reports nothing.
\<close>

theorem initialize_after_failed_fetch_counterexample:
  "candles ((CryptoChartSDK_new None None None None)\<lparr>candles := [candleAt 60, candleAt 120]\<rparr>)
     = [candleAt 60, candleAt 120]
   \<and> candles (initialize_from_http (\<lambda>text. None) ''1-0xabc'' True 180000 HttpRejected
        ((CryptoChartSDK_new None None None None)\<lparr>candles := [candleAt 60, candleAt 120]\<rparr>))
     = []
   \<and> onErrorNotified (initialize_from_http (\<lambda>text. None) ''1-0xabc'' True 180000 HttpRejected
        ((CryptoChartSDK_new None None None None)\<lparr>candles := [candleAt 60, candleAt 120]\<rparr>))
     = []
   \<and> error (initialize_from_http (\<lambda>text. None) ''1-0xabc'' True 180000 HttpRejected
        ((CryptoChartSDK_new None None None None)\<lparr>candles := [candleAt 60, candleAt 120]\<rparr>))
     = None"
  by (simp add: fetchHistoryCandles_def initialize_from_http_def initialize_def Let_def
      notifyChartUpdate_def notifyError_def startPeriodicUpdates_def getChartData_def
      CryptoChartSDK_new_def)

section \<open>Subscription acknowledgements\<close>

lemma onErrorCalls_handlePlainText [simp]:
  "onErrorCalls (handlePlainText message s) = onErrorCalls s"
  by (simp add: handlePlainText_def)

lemma onErrorCalls_handleTextMessage:
  "onErrorCalls (handleTextMessage parse message s) = onErrorCalls s"
  by (simp add: handleTextMessage_def split: option.splits json.splits)




end
